theory Spec2Isabelle
  imports Complex_Main "HOL-Library.Multiset"
begin

section \<open>Data model\<close>

text \<open>
  The 14 columns of the feature schema (\<^verbatim>\<open>features\<close> in \<^verbatim>\<open>train_model.py\<close>, the keys of
  \<^verbatim>\<open>input_dict\<close> in \<^verbatim>\<open>app.py\<close>). Every column holds a Python int.
\<close>

record feature_vector =
  having_IP_Address :: int
  URL_Length :: int
  Shortining_Service :: int
  having_At_Symbol :: int
  double_slash_redirecting :: int
  Prefix_Suffix :: int
  having_Sub_Domain :: int
  SSLfinal_State :: int
  URL_of_Anchor :: int
  Links_in_tags :: int
  SFH :: int
  Abnormal_URL :: int
  has_political_keyword :: int
  sophistication_level :: int

text \<open>
  The sidebar form of \<^verbatim>\<open>app.py\<close>: three-valued sliders hold the chosen option string,
  checkboxes hold a bool.
\<close>

record form_values =
  url_length :: string
  ssl_state :: string
  sub_domain :: string
  prefix_suffix :: bool
  has_ip :: bool
  short_service :: bool
  at_symbol :: bool
  abnormal_url :: bool
  political_keyword :: bool
  sophistication :: string

text \<open>A request is the form together with the provider chosen in the select box.\<close>

record request =
  form :: form_values
  genai_provider :: string

text \<open>One entry of \<^verbatim>\<open>THREAT_ACTOR_PROFILES\<close>.\<close>

record profile =
  name :: string
  description :: string
  characteristics :: "string list"
  motivations :: string
  typical_targets :: string
  color :: string

text \<open>
  The value read from the \<^verbatim>\<open>Cluster\<close> column is whatever scalar the clustering library
  returns; Python looks it up in the dict by equality, so an int and a string are
  different keys.
\<close>

datatype scalar = IntVal int | StrVal string

section \<open>\<^verbatim>\<open>app.py\<close>: data preparation and risk scoring\<close>

definition input_dict :: "form_values \<Rightarrow> feature_vector" where
  "input_dict fv =
     \<lparr> having_IP_Address = (if has_ip fv then 1 else -1),
       URL_Length = (if url_length fv = ''Short'' then -1
                     else (if url_length fv = ''Normal'' then 0 else 1)),
       Shortining_Service = (if short_service fv then 1 else -1),
       having_At_Symbol = (if at_symbol fv then 1 else -1),
       double_slash_redirecting = -1,
       Prefix_Suffix = (if prefix_suffix fv then 1 else -1),
       having_Sub_Domain = (if sub_domain fv = ''None'' then -1
                            else (if sub_domain fv = ''One'' then 0 else 1)),
       SSLfinal_State = (if ssl_state fv = ''None'' then -1
                         else (if ssl_state fv = ''Suspicious'' then 0 else 1)),
       URL_of_Anchor = 0,
       Links_in_tags = 0,
       SFH = 0,
       Abnormal_URL = (if abnormal_url fv then 1 else -1),
       has_political_keyword = (if political_keyword fv then 1 else -1),
       sophistication_level = (if sophistication fv = ''Low'' then -1
                               else (if sophistication fv = ''Medium'' then 0 else 1)) \<rparr>"

text \<open>
  \<^verbatim>\<open>risk_scores\<close>: a dict literal, kept as an association list in the order it is written.
\<close>

definition risk_scores :: "feature_vector \<Rightarrow> (string \<times> int) list" where
  "risk_scores d =
     [ (''Bad SSL'', if SSLfinal_State d < 1 then 25 else 0),
       (''Abnormal URL'', if Abnormal_URL d = 1 then 20 else 0),
       (''Prefix/Suffix'', if Prefix_Suffix d = 1 then 15 else 0),
       (''Shortened URL'', if Shortining_Service d = 1 then 15 else 0),
       (''Complex Sub-domain'', if having_Sub_Domain d = 1 then 10 else 0),
       (''Long URL'', if URL_Length d = 1 then 10 else 0),
       (''Uses IP Address'', if having_IP_Address d = 1 then 5 else 0),
       (''Political Keywords'', if has_political_keyword d = 1 then 10 else 0),
       (''High Sophistication'', if sophistication_level d = 1 then 15 else 0) ]"

text \<open>
  The total of a breakdown is the sum of its contributions (the source charts the
  factors one by one and never adds them up; the sum is what the risk breakdown's total
  means).
\<close>

definition risk_total :: "feature_vector \<Rightarrow> int" where
  "risk_total d = sum_list (map snd (risk_scores d))"

text \<open>
  The nine columns the scorer reads. \<open>set_flag\<close> overwrites one of them;
  \<open>is_risky\<close> is the test the scorer applies to that column.
\<close>

datatype risk_flag =
  Bad_SSL | Abnormal | Prefix | Shortened | Complex_Sub_domain | Long_URL | Uses_IP
  | Political | High_Sophistication

fun set_flag :: "risk_flag \<Rightarrow> int \<Rightarrow> feature_vector \<Rightarrow> feature_vector" where
  "set_flag Bad_SSL x d = d\<lparr>SSLfinal_State := x\<rparr>"
| "set_flag Abnormal x d = d\<lparr>Abnormal_URL := x\<rparr>"
| "set_flag Prefix x d = d\<lparr>Prefix_Suffix := x\<rparr>"
| "set_flag Shortened x d = d\<lparr>Shortining_Service := x\<rparr>"
| "set_flag Complex_Sub_domain x d = d\<lparr>having_Sub_Domain := x\<rparr>"
| "set_flag Long_URL x d = d\<lparr>URL_Length := x\<rparr>"
| "set_flag Uses_IP x d = d\<lparr>having_IP_Address := x\<rparr>"
| "set_flag Political x d = d\<lparr>has_political_keyword := x\<rparr>"
| "set_flag High_Sophistication x d = d\<lparr>sophistication_level := x\<rparr>"

fun is_risky :: "risk_flag \<Rightarrow> int \<Rightarrow> bool" where
  "is_risky Bad_SSL x = (x < 1)"
| "is_risky f x = (x = 1)"

section \<open>\<^verbatim>\<open>app.py\<close>: threat attribution\<close>

definition THREAT_ACTOR_PROFILES :: "scalar \<rightharpoonup> profile" where
  "THREAT_ACTOR_PROFILES =
     [ IntVal 0 \<mapsto>
         \<lparr> name = ''Organized Cybercrime'',
           description = ''High-volume, financially motivated threat actors using automated tools and infrastructure.'',
           characteristics =
             [ ''Frequent use of IP addresses and URL shortening services'',
               ''High volume of abnormal URL structures'',
               ''Moderate sophistication with focus on quantity over quality'',
               ''Targets financial gain through phishing campaigns'' ],
           motivations = ''Financial profit through credential theft, credit card fraud, and ransomware deployment'',
           typical_targets = ''Financial institutions, e-commerce sites, healthcare organizations'',
           color = ''red'' \<rparr>,
       IntVal 1 \<mapsto>
         \<lparr> name = ''State-Sponsored'',
           description = ''Nation-state actors with high sophistication and strategic objectives.'',
           characteristics =
             [ ''Advanced evasion techniques and complex URL structures'',
               ''High use of prefix/suffix manipulation and subdomain complexity'',
               ''Poor SSL certificate usage for stealth'',
               ''Targeted political and strategic intelligence gathering'' ],
           motivations = ''Intelligence collection, political espionage, and strategic advantage'',
           typical_targets = ''Government agencies, defense contractors, critical infrastructure'',
           color = ''blue'' \<rparr>,
       IntVal 2 \<mapsto>
         \<lparr> name = ''Hacktivist'',
           description = ''Ideologically motivated actors with mixed technical capabilities.'',
           characteristics =
             [ ''High political keyword usage in campaigns'',
               ''Mixed technical sophistication levels'',
               ''Balanced approach to URL manipulation techniques'',
               ''Focus on ideological messaging and disruption'' ],
           motivations = ''Political activism, social justice, and ideological statements'',
           typical_targets = ''Government websites, corporations, political organizations'',
           color = ''green'' \<rparr> ]"

text \<open>The default handed to \<^verbatim>\<open>THREAT_ACTOR_PROFILES.get\<close>.\<close>

definition unknown_profile :: profile where
  "unknown_profile =
     \<lparr> name = ''Unknown Threat Actor'',
       description = ''Unable to determine threat actor profile.'',
       characteristics = [],
       motivations = ''Unknown'',
       typical_targets = ''Unknown'',
       color = ''gray'' \<rparr>"

text \<open>\<^verbatim>\<open>THREAT_ACTOR_PROFILES.get(cluster_id, {...})\<close>: a lookup with a default.\<close>

definition threat_profile_of :: "scalar \<Rightarrow> profile" where
  "threat_profile_of cid =
     (case THREAT_ACTOR_PROFILES cid of Some p \<Rightarrow> p | None \<Rightarrow> unknown_profile)"

section \<open>\<^verbatim>\<open>app.py\<close>: the analysis workflow\<close>

text \<open>
  The row \<^verbatim>\<open>predict_model\<close> of the classification library returns: the predicted label and
  its score. The score is a float; it is read here as the real number it denotes.
\<close>

record prediction =
  prediction_label :: int
  prediction_score :: real

text \<open>The calls the workflow makes to its collaborators, in the order it makes them.\<close>

datatype call = Predict_model | Predict_clustering | Generate_prescription

text \<open>
  Everything the workflow has computed when the tabs are drawn. \<open>score_shown\<close> is the
  number under the heading "Malicious Confidence Score", \<open>error_shown\<close> the text handed
  to \<^verbatim>\<open>st.error\<close>, \<open>status_state\<close> the \<^verbatim>\<open>state\<close> of the last \<^verbatim>\<open>status.update\<close>.
\<close>

record 'p analysis =
  risk :: "(string \<times> int) list"
  is_malicious :: bool
  score_shown :: real
  cluster_id :: "scalar option"
  threat_profile :: "profile option"
  prescription :: "'p option"
  error_shown :: "string option"
  status_state :: string
  calls :: "call list"

text \<open>
  The number shown in the first tab: the score for a malicious verdict, one minus the
  score otherwise.
\<close>

definition confidence_shown :: "prediction \<Rightarrow> real" where
  "confidence_shown p =
     (if prediction_label p = 1 then prediction_score p else 1 - prediction_score p)"

text \<open>
  The \<^verbatim>\<open>else\<close> branch of \<^verbatim>\<open>if not submitted\<close>. The two loaded models and
  \<^verbatim>\<open>generate_prescription\<close> are collaborators outside the source and are parameters:
  \<open>clf\<close> is \<^verbatim>\<open>predict_model(classification_model, \<dots>)\<close>, \<open>clu\<close> is
  \<^verbatim>\<open>predict_clustering(clustering_model, \<dots>)\<close> read at \<^verbatim>\<open>['Cluster'].iloc[0]\<close>, and \<open>gen\<close>
  returns \<open>Inl\<close> of the exception's text when \<^verbatim>\<open>generate_prescription\<close> raises.
\<close>

definition analysis_workflow ::
  "(feature_vector \<Rightarrow> prediction) \<Rightarrow> (feature_vector \<Rightarrow> scalar) \<Rightarrow>
   (string \<Rightarrow> feature_vector \<Rightarrow> string + 'p) \<Rightarrow> request \<Rightarrow> 'p analysis" where
  "analysis_workflow clf clu gen req =
     (let d = input_dict (form req);
          scores = risk_scores d;
          pred = clf d;
          malicious = (prediction_label pred = 1)
      in if malicious then
           (let cid = clu d;
                tp = threat_profile_of cid
            in case gen (genai_provider req) d of
                 Inr plan \<Rightarrow>
                   \<lparr> risk = scores, is_malicious = malicious,
                     score_shown = confidence_shown pred,
                     cluster_id = Some cid, threat_profile = Some tp,
                     prescription = Some plan, error_shown = None,
                     status_state = ''complete'',
                     calls = [Predict_model, Predict_clustering, Generate_prescription] \<rparr>
               | Inl e \<Rightarrow>
                   \<lparr> risk = scores, is_malicious = malicious,
                     score_shown = confidence_shown pred,
                     cluster_id = Some cid, threat_profile = Some tp,
                     prescription = None,
                     error_shown = Some (''Failed to generate prescription: '' @ e),
                     status_state = ''error'',
                     calls = [Predict_model, Predict_clustering, Generate_prescription] \<rparr>)
         else
           \<lparr> risk = scores, is_malicious = malicious,
             score_shown = confidence_shown pred,
             cluster_id = None, threat_profile = None,
             prescription = None, error_shown = None,
             status_state = ''complete'',
             calls = [Predict_model] \<rparr>)"

section \<open>\<^verbatim>\<open>train_model.py\<close>: the training corpus\<close>

text \<open>A row of the corpus: the 14 feature columns, then \<^verbatim>\<open>label\<close> and \<^verbatim>\<open>threat_actor\<close>.\<close>

record training_row = feature_vector +
  label :: int
  threat_actor :: int

datatype error = ValueError

text \<open>
  The random generator is numpy's process-wide one; the source never seeds it. Its state
  is the type variable \<open>'g\<close>, and the two library calls that consume it are parameters:
  \<^verbatim>\<open>np.random.choice(a, size, p=p)\<close> and \<^verbatim>\<open>df.sample(frac=1).reset_index(drop=True)\<close>.
\<close>

type_synonym 'g choice = "int list \<Rightarrow> nat \<Rightarrow> real list \<Rightarrow> 'g \<Rightarrow> int list \<times> 'g"

type_synonym 'g sampler = "training_row list \<Rightarrow> 'g \<Rightarrow> training_row list \<times> 'g"

text \<open>
  The four distribution tables: for each of the 14 columns, in the order the dict literal
  evaluates them, the values and their probabilities.
\<close>

definition state_sponsored_data :: "(int list \<times> real list) list" where
  "state_sponsored_data =
     [ ([1, -1], [0.1, 0.9]),
       ([1, 0, -1], [0.7, 0.2, 0.1]),
       ([1, -1], [0.2, 0.8]),
       ([1, -1], [0.3, 0.7]),
       ([1, -1], [0.4, 0.6]),
       ([1, -1], [0.8, 0.2]),
       ([1, 0, -1], [0.7, 0.2, 0.1]),
       ([-1, 0, 1], [0.7, 0.2, 0.1]),
       ([-1, 0, 1], [0.6, 0.3, 0.1]),
       ([-1, 0, 1], [0.5, 0.3, 0.2]),
       ([-1, 0, 1], [0.7, 0.2, 0.1]),
       ([1, -1], [0.6, 0.4]),
       ([1, -1], [0.3, 0.7]),
       ([1, 0, -1], [0.8, 0.15, 0.05]) ]"

definition cybercrime_data :: "(int list \<times> real list) list" where
  "cybercrime_data =
     [ ([1, -1], [0.6, 0.4]),
       ([1, 0, -1], [0.2, 0.5, 0.3]),
       ([1, -1], [0.8, 0.2]),
       ([1, -1], [0.5, 0.5]),
       ([1, -1], [0.6, 0.4]),
       ([1, -1], [0.4, 0.6]),
       ([1, 0, -1], [0.3, 0.4, 0.3]),
       ([-1, 0, 1], [0.5, 0.3, 0.2]),
       ([-1, 0, 1], [0.4, 0.4, 0.2]),
       ([-1, 0, 1], [0.5, 0.3, 0.2]),
       ([-1, 0, 1], [0.6, 0.2, 0.2]),
       ([1, -1], [0.7, 0.3]),
       ([1, -1], [0.1, 0.9]),
       ([1, 0, -1], [0.2, 0.5, 0.3]) ]"

definition hacktivist_data :: "(int list \<times> real list) list" where
  "hacktivist_data =
     [ ([1, -1], [0.4, 0.6]),
       ([1, 0, -1], [0.3, 0.4, 0.3]),
       ([1, -1], [0.5, 0.5]),
       ([1, -1], [0.4, 0.6]),
       ([1, -1], [0.4, 0.6]),
       ([1, -1], [0.5, 0.5]),
       ([1, 0, -1], [0.4, 0.4, 0.2]),
       ([-1, 0, 1], [0.4, 0.3, 0.3]),
       ([-1, 0, 1], [0.4, 0.3, 0.3]),
       ([-1, 0, 1], [0.4, 0.3, 0.3]),
       ([-1, 0, 1], [0.4, 0.3, 0.3]),
       ([1, -1], [0.5, 0.5]),
       ([1, -1], [0.7, 0.3]),
       ([1, 0, -1], [0.3, 0.5, 0.2]) ]"

definition benign_data :: "(int list \<times> real list) list" where
  "benign_data =
     [ ([1, -1], [0.05, 0.95]),
       ([1, 0, -1], [0.1, 0.6, 0.3]),
       ([1, -1], [0.1, 0.9]),
       ([1, -1], [0.05, 0.95]),
       ([1, -1], [0.05, 0.95]),
       ([1, -1], [0.1, 0.9]),
       ([1, 0, -1], [0.1, 0.4, 0.5]),
       ([-1, 0, 1], [0.05, 0.15, 0.8]),
       ([-1, 0, 1], [0.1, 0.2, 0.7]),
       ([-1, 0, 1], [0.1, 0.2, 0.7]),
       ([-1, 0, 1], [0.1, 0.1, 0.8]),
       ([1, -1], [0.1, 0.9]),
       ([1, -1], [0.05, 0.95]),
       ([1, 0, -1], [0.05, 0.1, 0.85]) ]"

text \<open>
  Evaluating one dict literal: one \<^verbatim>\<open>np.random.choice\<close> call per column, each of the
  same size, the generator state handed from one call to the next.
\<close>

fun draw_columns ::
  "'g choice \<Rightarrow> (int list \<times> real list) list \<Rightarrow> nat \<Rightarrow> 'g \<Rightarrow> int list list \<times> 'g" where
  "draw_columns choice [] n g = ([], g)"
| "draw_columns choice ((a, p) # specs) n g =
     (let (col, g1) = choice a n p g;
          (cols, g2) = draw_columns choice specs n g1
      in (col # cols, g2))"

text \<open>Row \<open>i\<close> of a frame built from 14 columns.\<close>

definition row_at :: "int list list \<Rightarrow> nat \<Rightarrow> feature_vector" where
  "row_at cols i =
     \<lparr> having_IP_Address = cols ! 0 ! i,
       URL_Length = cols ! 1 ! i,
       Shortining_Service = cols ! 2 ! i,
       having_At_Symbol = cols ! 3 ! i,
       double_slash_redirecting = cols ! 4 ! i,
       Prefix_Suffix = cols ! 5 ! i,
       having_Sub_Domain = cols ! 6 ! i,
       SSLfinal_State = cols ! 7 ! i,
       URL_of_Anchor = cols ! 8 ! i,
       Links_in_tags = cols ! 9 ! i,
       SFH = cols ! 10 ! i,
       Abnormal_URL = cols ! 11 ! i,
       has_political_keyword = cols ! 12 ! i,
       sophistication_level = cols ! 13 ! i \<rparr>"

text \<open>
  \<^verbatim>\<open>pd.DataFrame(dict_of_columns)\<close>: one row per position of the columns. The columns
  of a table all come from \<open>draw_columns\<close> at one size; the frame has as many rows as its
  first column has entries.
\<close>

definition DataFrame :: "int list list \<Rightarrow> feature_vector list" where
  "DataFrame cols =
     (case cols of [] \<Rightarrow> [] | c # _ \<Rightarrow> map (row_at cols) [0..<length c])"

text \<open>\<^verbatim>\<open>df['label'] = l; df['threat_actor'] = t\<close>.\<close>

definition add_labels :: "int \<Rightarrow> int \<Rightarrow> feature_vector list \<Rightarrow> training_row list" where
  "add_labels l t df = map (\<lambda>v. feature_vector.extend v \<lparr>label = l, threat_actor = t\<rparr>) df"

text \<open>
  \<^verbatim>\<open>generate_synthetic_data(num_samples)\<close>. \<^verbatim>\<open>//\<close> is floor division, as \<open>div\<close> on
  \<open>int\<close> is. \<^verbatim>\<open>np.random.choice\<close> raises \<^verbatim>\<open>ValueError\<close> at a negative size; the first call
  has size \<open>state_sponsored\<close>, and when that is not negative no later size is.
  The result is the shuffled corpus and the generator state the run leaves behind.
\<close>

definition generate_synthetic_data ::
  "'g choice \<Rightarrow> 'g sampler \<Rightarrow> int \<Rightarrow> 'g \<Rightarrow> error + (training_row list \<times> 'g)" where
  "generate_synthetic_data choice sample num_samples g0 =
     (let num_phishing = num_samples div 2;
          num_benign = num_samples - num_phishing;
          state_sponsored = num_phishing div 3;
          cybercrime = num_phishing div 3;
          hacktivist = num_phishing - state_sponsored - cybercrime
      in if state_sponsored < 0 then Inl ValueError
         else
           (let (c0, g1) = draw_columns choice state_sponsored_data (nat state_sponsored) g0;
                (c1, g2) = draw_columns choice cybercrime_data (nat cybercrime) g1;
                (c2, g3) = draw_columns choice hacktivist_data (nat hacktivist) g2;
                (c3, g4) = draw_columns choice benign_data (nat num_benign) g3;
                df_state_sponsored = add_labels 1 0 (DataFrame c0);
                df_cybercrime = add_labels 1 1 (DataFrame c1);
                df_hacktivist = add_labels 1 2 (DataFrame c2);
                df_benign = add_labels 0 (-1) (DataFrame c3);
                final_df = df_state_sponsored @ df_cybercrime @ df_hacktivist @ df_benign
            in Inr (sample final_df g4)))"

section \<open>\<^verbatim>\<open>train_model.py\<close>: the clustering model\<close>

text \<open>\<^verbatim>\<open>data.drop(['label', 'threat_actor'], axis=1)\<close>: every row, without its two last columns.\<close>

definition clustering_data :: "training_row list \<Rightarrow> feature_vector list" where
  "clustering_data data = map feature_vector.truncate data"

text \<open>
  \<^verbatim>\<open>train_clustering_model(data)\<close>. The clustering library (\<^verbatim>\<open>setup\<close>, \<^verbatim>\<open>create_model('kmeans',
  num_clusters=3)\<close>, \<^verbatim>\<open>finalize_model\<close>) is the parameter \<open>kmeans\<close>; a fitted model is
  the function that \<^verbatim>\<open>predict_model\<close> computes with it. The fitted model is all that is
  returned.
\<close>

definition train_clustering_model ::
  "(feature_vector list \<Rightarrow> feature_vector \<Rightarrow> scalar) \<Rightarrow> training_row list \<Rightarrow>
   feature_vector \<Rightarrow> scalar" where
  "train_clustering_model kmeans data = kmeans (clustering_data data)"

text \<open>
  Attribution of a vector with the artefact of a training run: the cluster the fitted
  model predicts, looked up in \<^verbatim>\<open>THREAT_ACTOR_PROFILES\<close>.
\<close>

definition attribution ::
  "(feature_vector list \<Rightarrow> feature_vector \<Rightarrow> scalar) \<Rightarrow> training_row list \<Rightarrow>
   feature_vector \<Rightarrow> profile" where
  "attribution kmeans data v = threat_profile_of (train_clustering_model kmeans data v)"

section \<open>Quantities the properties are stated with\<close>

text \<open>The two ground-truth columns of each row, in row order.\<close>

definition labels_of :: "training_row list \<Rightarrow> (int \<times> int) list" where
  "labels_of data = map (\<lambda>r. (label r, threat_actor r)) data"

text \<open>The number of rows with a given \<^verbatim>\<open>label\<close> and \<^verbatim>\<open>threat_actor\<close>.\<close>

definition count_rows :: "int \<Rightarrow> int \<Rightarrow> training_row list \<Rightarrow> nat" where
  "count_rows l t data = length (filter (\<lambda>r. label r = l \<and> threat_actor r = t) data)"

section \<open>Concrete inputs\<close>

text \<open>Two forms: every flag at its clean value, and a risky one.\<close>

definition clean_form :: form_values where
  "clean_form = \<lparr> url_length = ''Normal'', ssl_state = ''Trusted'', sub_domain = ''None'',
     prefix_suffix = False, has_ip = False, short_service = False, at_symbol = False,
     abnormal_url = False, political_keyword = False, sophistication = ''Low'' \<rparr>"

definition risky_form :: form_values where
  "risky_form = \<lparr> url_length = ''Long'', ssl_state = ''None'', sub_domain = ''One'',
     prefix_suffix = True, has_ip = True, short_service = True, at_symbol = False,
     abnormal_url = True, political_keyword = False, sophistication = ''Medium'' \<rparr>"

definition clean_vector :: feature_vector where
  "clean_vector = input_dict clean_form"

text \<open>Stand-ins for the collaborators, used to run the workflow on concrete requests.\<close>

definition clf_by_ip :: "feature_vector \<Rightarrow> prediction" where
  "clf_by_ip d = (if having_IP_Address d = 1
      then \<lparr>prediction_label = 1, prediction_score = 0.8\<rparr>
      else \<lparr>prediction_label = 0, prediction_score = 0.9\<rparr>)"

definition clu_by_keyword :: "feature_vector \<Rightarrow> scalar" where
  "clu_by_keyword d = (if has_political_keyword d = 1 then IntVal 2 else IntVal 0)"

definition gen_unsupported :: "string \<Rightarrow> feature_vector \<Rightarrow> string + string list" where
  "gen_unsupported provider d =
     (if provider = ''Gemini'' then Inr [''Block the URL''] else Inl ''Unsupported provider'')"

text \<open>Stand-ins for the two library calls, used to run the generator on concrete inputs.\<close>

definition cycle_choice :: "nat choice" where
  "cycle_choice a n p g = (map (\<lambda>i. a ! ((g + i) mod length a)) [0..<n], g + n)"

definition rotate_sample :: "nat sampler" where
  "rotate_sample d g = (rotate g d, Suc g)"

text \<open>
  The corpora of two successive runs of the generator at 2 rows with the stand-ins
  above, the second run starting from the generator state the first one leaves.
\<close>

definition corpus_a :: "training_row list" where
  "corpus_a =
     [ \<lparr>having_IP_Address = 1, URL_Length = 0, Shortining_Service = 1,
        having_At_Symbol = - 1, double_slash_redirecting = 1,
        Prefix_Suffix = - 1, having_Sub_Domain = 1, SSLfinal_State = 0,
        URL_of_Anchor = 1, Links_in_tags = - 1, SFH = 0,
        Abnormal_URL = - 1, has_political_keyword = 1,
        sophistication_level = 0, label = 1, threat_actor = 2\<rparr>,
       \<lparr>having_IP_Address = 1, URL_Length = 1, Shortining_Service = 1,
        having_At_Symbol = - 1, double_slash_redirecting = 1,
        Prefix_Suffix = - 1, having_Sub_Domain = - 1,
        SSLfinal_State = - 1, URL_of_Anchor = 0, Links_in_tags = 1,
        SFH = - 1, Abnormal_URL = - 1, has_political_keyword = 1,
        sophistication_level = 1, label = 0, threat_actor = - 1\<rparr> ]"

definition corpus_b :: "training_row list" where
  "corpus_b =
     [ \<lparr>having_IP_Address = - 1, URL_Length = - 1, Shortining_Service = - 1,
        having_At_Symbol = 1, double_slash_redirecting = - 1,
        Prefix_Suffix = 1, having_Sub_Domain = 0, SSLfinal_State = 1,
        URL_of_Anchor = - 1, Links_in_tags = 0, SFH = 1, Abnormal_URL = 1,
        has_political_keyword = - 1, sophistication_level = - 1,
        label = 0, threat_actor = - 1\<rparr>,
       \<lparr>having_IP_Address = - 1, URL_Length = 1, Shortining_Service = - 1,
        having_At_Symbol = 1, double_slash_redirecting = - 1,
        Prefix_Suffix = 1, having_Sub_Domain = - 1, SSLfinal_State = - 1,
        URL_of_Anchor = 0, Links_in_tags = 1, SFH = - 1, Abnormal_URL = 1,
        has_political_keyword = - 1, sophistication_level = 1, label = 1,
        threat_actor = 2\<rparr> ]"

text \<open>
  A corpus of three malicious rows, one per archetype, and two fitted models that
  separate the three rows alike and number the clusters differently.
\<close>

definition state_form :: form_values where
  "state_form = \<lparr> url_length = ''Long'', ssl_state = ''None'', sub_domain = ''Many'',
     prefix_suffix = True, has_ip = False, short_service = False, at_symbol = False,
     abnormal_url = True, political_keyword = False, sophistication = ''High'' \<rparr>"

definition activist_form :: form_values where
  "activist_form = \<lparr> url_length = ''Normal'', ssl_state = ''Suspicious'', sub_domain = ''One'',
     prefix_suffix = False, has_ip = False, short_service = False, at_symbol = False,
     abnormal_url = False, political_keyword = True, sophistication = ''Medium'' \<rparr>"

definition corpus_three :: "training_row list" where
  "corpus_three =
     add_labels 1 0 [input_dict state_form] @ add_labels 1 1 [input_dict risky_form]
     @ add_labels 1 2 [input_dict activist_form]"

definition kmeans_a :: "feature_vector list \<Rightarrow> feature_vector \<Rightarrow> scalar" where
  "kmeans_a rows v =
     (if has_political_keyword v = 1 then IntVal 0
      else if Shortining_Service v = 1 then IntVal 1 else IntVal 2)"

definition kmeans_b :: "feature_vector list \<Rightarrow> feature_vector \<Rightarrow> scalar" where
  "kmeans_b rows v =
     (if Shortining_Service v = 1 then IntVal 0
      else if has_political_keyword v = 1 then IntVal 2 else IntVal 1)"

section \<open>What the specification asks of the attribution stage\<close>

text \<open>
  Following the spec's words (4.4): the rows the clustering is fitted on are the feature
  columns of the malicious rows only.
\<close>

definition spec_malicious_clustering_data :: "training_row list \<Rightarrow> feature_vector list" where
  "spec_malicious_clustering_data data =
     map feature_vector.truncate (filter (\<lambda>r. label r = 1) data)"

text \<open>
  Following the spec's words (4.4): the binding of a cluster id is the majority
  ground-truth \<^verbatim>\<open>threat_actor\<close> among the rows of the corpus that the fitted model puts in
  that cluster; \<open>None\<close> when the cluster has no member or no archetype leads.
\<close>

definition spec_majority :: "int list \<Rightarrow> int option" where
  "spec_majority xs =
     find (\<lambda>a. list_all (\<lambda>b. b = a \<or> count_list xs b < count_list xs a) xs) (remdups xs)"

definition spec_cluster_binding ::
  "(feature_vector \<Rightarrow> scalar) \<Rightarrow> training_row list \<Rightarrow> int \<Rightarrow> int option" where
  "spec_cluster_binding model data c =
     spec_majority
       (map threat_actor (filter (\<lambda>r. model (feature_vector.truncate r) = IntVal c) data))"

section \<open>The risk scorer\<close>

lemma risk_total_unfold:
  "risk_total d =
     (if SSLfinal_State d < 1 then 25 else 0) + (if Abnormal_URL d = 1 then 20 else 0)
   + (if Prefix_Suffix d = 1 then 15 else 0) + (if Shortining_Service d = 1 then 15 else 0)
   + (if having_Sub_Domain d = 1 then 10 else 0) + (if URL_Length d = 1 then 10 else 0)
   + (if having_IP_Address d = 1 then 5 else 0) + (if has_political_keyword d = 1 then 10 else 0)
   + (if sophistication_level d = 1 then 15 else 0)"
  by (simp add: risk_total_def risk_scores_def)

text \<open>
  Claim C5. Overwriting one of the nine scored columns, from a value the scorer does not
  count to a value it counts, never lowers the total; and every contribution in a
  breakdown is non-negative.
\<close>

theorem risk_monotone_nonneg:
  "(\<not> is_risky f a \<and> is_risky f b \<longrightarrow>
      risk_total (set_flag f a d) \<le> risk_total (set_flag f b d))
   \<and> (\<forall>(factor, pts) \<in> set (risk_scores d). 0 \<le> pts)"
proof
  show "\<not> is_risky f a \<and> is_risky f b \<longrightarrow>
      risk_total (set_flag f a d) \<le> risk_total (set_flag f b d)"
    by (cases f) (simp_all add: risk_total_unfold)
  show "\<forall>(factor, pts) \<in> set (risk_scores d). 0 \<le> pts"
    by (simp add: risk_scores_def)
qed

theorem risk_monotone_nonneg_witness:
  "\<not> is_risky Abnormal (-1) \<and> is_risky Abnormal 1
   \<and> risk_total (set_flag Abnormal (-1) clean_vector) = 0
   \<and> risk_total (set_flag Abnormal 1 clean_vector) = 20
   \<and> risk_total (set_flag Abnormal (-1) clean_vector) \<le> risk_total (set_flag Abnormal 1 clean_vector)
   \<and> map snd (risk_scores (set_flag Abnormal 1 clean_vector)) = [0, 20, 0, 0, 0, 0, 0, 0, 0]"
  using risk_monotone_nonneg [of Abnormal "-1" 1 clean_vector]
  by (simp add: risk_total_unfold risk_scores_def clean_vector_def clean_form_def input_dict_def)

section \<open>Attribution fallback\<close>

lemma dom_profiles: "dom THREAT_ACTOR_PROFILES = {IntVal 0, IntVal 1, IntVal 2}"
  by (auto simp: THREAT_ACTOR_PROFILES_def split: if_splits)

text \<open>
  Claim C7. A cluster id that is not a key of the table resolves to the unknown profile.
  The lookup is a total function: there is no failing branch.
\<close>

theorem unbound_cluster_unknown:
  "cid \<notin> dom THREAT_ACTOR_PROFILES \<Longrightarrow> threat_profile_of cid = unknown_profile"
  by (auto simp: threat_profile_of_def split: option.splits)

theorem unbound_cluster_unknown_witness:
  "IntVal 3 \<notin> dom THREAT_ACTOR_PROFILES \<and> threat_profile_of (IntVal 3) = unknown_profile
   \<and> StrVal ''Cluster 0'' \<notin> dom THREAT_ACTOR_PROFILES
   \<and> name (threat_profile_of (StrVal ''Cluster 0'')) = ''Unknown Threat Actor''"
  using unbound_cluster_unknown [of "IntVal 3"] unbound_cluster_unknown [of "StrVal ''Cluster 0''"]
  by (simp add: dom_profiles unknown_profile_def)

section \<open>The analysis workflow\<close>





text \<open>
  Claim C6. When the verdict is malicious and \<^verbatim>\<open>generate_prescription\<close> raises, the plan is
  \<open>None\<close> and the error text is shown, while verdict, score, cluster, profile and risk
  breakdown are what they are when the call succeeds: the two results differ in the
  plan, the error and the status only.
\<close>

theorem prescription_failure_keeps_results:
  assumes "prediction_label (clf (input_dict (form req))) = 1"
    and "gen (genai_provider req) (input_dict (form req)) = Inl e"
  shows "prescription (analysis_workflow clf clu gen req) = None
    \<and> error_shown (analysis_workflow clf clu gen req)
        = Some (''Failed to generate prescription: '' @ e)
    \<and> is_malicious (analysis_workflow clf clu gen req)
    \<and> score_shown (analysis_workflow clf clu gen req)
        = confidence_shown (clf (input_dict (form req)))
    \<and> cluster_id (analysis_workflow clf clu gen req) = Some (clu (input_dict (form req)))
    \<and> threat_profile (analysis_workflow clf clu gen req)
        = Some (threat_profile_of (clu (input_dict (form req))))
    \<and> risk (analysis_workflow clf clu gen req) = risk_scores (input_dict (form req))
    \<and> (\<forall>plan. analysis_workflow clf clu (\<lambda>p d. Inr plan) req
         = (analysis_workflow clf clu gen req)
             \<lparr>prescription := Some plan, error_shown := None, status_state := ''complete''\<rparr>)"
  using assms by (simp add: analysis_workflow_def Let_def)


theorem prescription_failure_keeps_results_witness:
  "prediction_label (clf_by_ip (input_dict risky_form)) = 1
   \<and> gen_unsupported ''Grok'' (input_dict risky_form) = Inl ''Unsupported provider''
   \<and> prescription (analysis_workflow clf_by_ip clu_by_keyword gen_unsupported
        \<lparr>form = risky_form, genai_provider = ''Grok''\<rparr>) = None
   \<and> error_shown (analysis_workflow clf_by_ip clu_by_keyword gen_unsupported
        \<lparr>form = risky_form, genai_provider = ''Grok''\<rparr>)
       = Some ''Failed to generate prescription: Unsupported provider''
   \<and> cluster_id (analysis_workflow clf_by_ip clu_by_keyword gen_unsupported
        \<lparr>form = risky_form, genai_provider = ''Grok''\<rparr>) = Some (IntVal 0)"
  using prescription_failure_keeps_results [of clf_by_ip
     "\<lparr>form = risky_form, genai_provider = ''Grok''\<rparr>" gen_unsupported
     "''Unsupported provider''" clu_by_keyword]
  by (simp add: clf_by_ip_def gen_unsupported_def clu_by_keyword_def risky_form_def input_dict_def)

text \<open>
  Claim C9. When the verdict is benign, the clustering model is never called (nor is the
  prescription service), and cluster, profile and plan are all \<open>None\<close>.
\<close>

theorem benign_skips_attribution:
  assumes "prediction_label (clf (input_dict (form req))) \<noteq> 1"
  shows "\<not> is_malicious (analysis_workflow clf clu gen req)
    \<and> Predict_clustering \<notin> set (calls (analysis_workflow clf clu gen req))
    \<and> Generate_prescription \<notin> set (calls (analysis_workflow clf clu gen req))
    \<and> cluster_id (analysis_workflow clf clu gen req) = None
    \<and> threat_profile (analysis_workflow clf clu gen req) = None
    \<and> prescription (analysis_workflow clf clu gen req) = None"
  using assms by (simp add: analysis_workflow_def Let_def)

theorem benign_skips_attribution_witness:
  "prediction_label (clf_by_ip (input_dict clean_form)) \<noteq> 1
   \<and> calls (analysis_workflow clf_by_ip clu_by_keyword gen_unsupported
        \<lparr>form = clean_form, genai_provider = ''Gemini''\<rparr>) = [Predict_model]
   \<and> prescription (analysis_workflow clf_by_ip clu_by_keyword gen_unsupported
        \<lparr>form = clean_form, genai_provider = ''Gemini''\<rparr>) = None"
  using benign_skips_attribution [of clf_by_ip
     "\<lparr>form = clean_form, genai_provider = ''Gemini''\<rparr>" clu_by_keyword gen_unsupported]
  by (simp add: clf_by_ip_def clean_form_def input_dict_def analysis_workflow_def)

text \<open>
  What the first tab shows, for every classifier and request: the score itself when the
  verdict is malicious, one minus the score when it is benign.
\<close>

lemma workflow_score_shown:
  "score_shown (analysis_workflow clf clu gen req) =
     (if is_malicious (analysis_workflow clf clu gen req)
      then prediction_score (clf (input_dict (form req)))
      else 1 - prediction_score (clf (input_dict (form req))))"
  by (simp add: analysis_workflow_def Let_def confidence_shown_def split: sum.splits)


section \<open>The generator\<close>

lemma draw_columns_length:
  "length (fst (draw_columns choice specs n g)) = length specs"
proof (induction specs arbitrary: g)
  case Nil
  show ?case by simp
next
  case (Cons sp specs)
  obtain a p where sp: "sp = (a, p)" by (cases sp)
  obtain col g1 where c: "choice a n p g = (col, g1)" by (cases "choice a n p g")
  obtain cols g2 where d: "draw_columns choice specs n g1 = (cols, g2)"
    by (cases "draw_columns choice specs n g1")
  from Cons.IH [of g1] d have "length cols = length specs" by simp
  then show ?case by (simp add: sp c d)
qed

lemma draw_columns_hd:
  assumes "\<And>a n p g. length (fst (choice a n p g)) = n"
  shows "draw_columns choice ((a, p) # specs) n g = (cols, g') \<Longrightarrow> length (hd cols) = n \<and> cols \<noteq> []"
  using assms [of a n p g] by (auto split: prod.splits)

lemma DataFrame_length:
  assumes "\<And>a n p g. length (fst (choice a n p g)) = n"
    and "specs \<noteq> []"
  shows "length (DataFrame (fst (draw_columns choice specs n g))) = n"
proof -
  obtain a p rest where sp: "specs = (a, p) # rest"
    using assms(2) by (cases specs) auto
  obtain cols g' where d: "draw_columns choice ((a, p) # rest) n g = (cols, g')"
    by (cases "draw_columns choice ((a, p) # rest) n g")
  from draw_columns_hd [OF assms(1) d] have "length (hd cols) = n" "cols \<noteq> []" by auto
  then show ?thesis
    unfolding sp d by (cases cols) (auto simp: DataFrame_def)
qed

lemma labels_of_add_labels: "labels_of (add_labels l t df) = replicate (length df) (l, t)"
  by (induction df) (simp_all add: labels_of_def add_labels_def feature_vector.extend_def)

lemma tables_nonempty:
  "state_sponsored_data \<noteq> []" "cybercrime_data \<noteq> []" "hacktivist_data \<noteq> []" "benign_data \<noteq> []"
  by (simp_all add: state_sponsored_data_def cybercrime_data_def hacktivist_data_def benign_data_def)

lemma labels_of_append: "labels_of (xs @ ys) = labels_of xs @ labels_of ys"
  by (simp add: labels_of_def)

lemma generate_labels:
  assumes choice_len: "\<And>a n p g. length (fst (choice a n p g)) = n"
    and sample_perm: "\<And>d g. mset (fst (sample d g)) = mset d"
    and nonneg: "0 \<le> n"
  shows "\<exists>corpus g'. generate_synthetic_data choice sample n g = Inr (corpus, g')
     \<and> mset (labels_of corpus) =
         mset (replicate (nat (n div 2 div 3)) (1, 0)
              @ replicate (nat (n div 2 div 3)) (1, 1)
              @ replicate (nat (n div 2 - n div 2 div 3 - n div 2 div 3)) (1, 2)
              @ replicate (nat (n - n div 2)) (0, -1))"
proof -
  let ?s = "nat (n div 2 div 3)"
  let ?h = "nat (n div 2 - n div 2 div 3 - n div 2 div 3)"
  let ?b = "nat (n - n div 2)"
  obtain c0 g1 where d0: "draw_columns choice state_sponsored_data ?s g = (c0, g1)"
    by (cases "draw_columns choice state_sponsored_data ?s g")
  obtain c1 g2 where d1: "draw_columns choice cybercrime_data ?s g1 = (c1, g2)"
    by (cases "draw_columns choice cybercrime_data ?s g1")
  obtain c2 g3 where d2: "draw_columns choice hacktivist_data ?h g2 = (c2, g3)"
    by (cases "draw_columns choice hacktivist_data ?h g2")
  obtain c3 g4 where d3: "draw_columns choice benign_data ?b g3 = (c3, g4)"
    by (cases "draw_columns choice benign_data ?b g3")
  let ?final = "add_labels 1 0 (DataFrame c0) @ add_labels 1 1 (DataFrame c1)
      @ add_labels 1 2 (DataFrame c2) @ add_labels 0 (-1) (DataFrame c3)"
  have l0: "length (DataFrame c0) = ?s"
    using DataFrame_length [of choice _ "?s" g, OF choice_len tables_nonempty(1)]
    unfolding d0 fst_conv .
  have l1: "length (DataFrame c1) = ?s"
    using DataFrame_length [of choice _ "?s" g1, OF choice_len tables_nonempty(2)]
    unfolding d1 fst_conv .
  have l2: "length (DataFrame c2) = ?h"
    using DataFrame_length [of choice _ "?h" g2, OF choice_len tables_nonempty(3)]
    unfolding d2 fst_conv .
  have l3: "length (DataFrame c3) = ?b"
    using DataFrame_length [of choice _ "?b" g3, OF choice_len tables_nonempty(4)]
    unfolding d3 fst_conv .
  have nn: "\<not> n div 2 div 3 < 0" using nonneg by simp
  have gen: "generate_synthetic_data choice sample n g = Inr (sample ?final g4)"
    unfolding generate_synthetic_data_def Let_def d0 d1 d2 d3 prod.case
    using nn by simp
  have "mset (labels_of (fst (sample ?final g4))) = mset (labels_of ?final)"
    unfolding labels_of_def mset_map by (simp only: sample_perm)
  also have "labels_of ?final = replicate ?s (1, 0) @ replicate ?s (1, 1)
       @ replicate ?h (1, 2) @ replicate ?b (0, -1)"
    by (simp only: labels_of_append labels_of_add_labels l0 l1 l2 l3)
  finally show ?thesis
    unfolding gen by (cases "sample ?final g4") auto
qed
lemma cycle_choice_length: "length (fst (cycle_choice a n p g)) = n"
  by (simp add: cycle_choice_def)

lemma rotate_sample_perm: "mset (fst (rotate_sample d g)) = mset d"
proof -
  have "mset (drop k d @ take k d) = mset d" for k
    by (metis append_take_drop_id mset_append union_commute)
  then show ?thesis
    by (simp add: rotate_sample_def rotate_drop_take)
qed

lemma count_rows_count: "count_rows l t data = count (mset (labels_of data)) (l, t)"
  by (induction data) (auto simp: count_rows_def labels_of_def)

lemma label_filter_count:
  "length (filter (\<lambda>r. label r = l) data) = count (image_mset fst (mset (labels_of data))) l"
  by (induction data) (auto simp: labels_of_def)

lemma length_labels_of: "length data = size (mset (labels_of data))"
  by (simp add: labels_of_def)

lemma split_sizes:
  fixes n :: int
  assumes "0 \<le> n"
  shows "0 \<le> n div 2 div 3" "0 \<le> n div 2 - n div 2 div 3 - n div 2 div 3" "0 \<le> n - n div 2"
    "n div 2 - n div 2 div 3 - n div 2 div 3 = n div 2 div 3 + n div 2 mod 3"
    "n div 2 div 3 + n div 2 div 3 + (n div 2 - n div 2 div 3 - n div 2 div 3) = n div 2"
  using assms by presburger+

text \<open>
  Claim C8. For every row count \<open>n \<ge> 0\<close> the generator returns a corpus of \<open>n\<close> rows:
  \<open>n div 2\<close> malicious and \<open>n - n div 2\<close> benign (the benign half is larger by at most
  one row), the malicious rows being \<open>n div 2 div 3\<close> of archetype 0, as many of
  archetype 1, and that many plus the remainder \<open>n div 2 mod 3\<close> of archetype 2. The
  two library calls are assumed to do what they document: \<^verbatim>\<open>choice\<close> returns as many
  draws as asked, \<^verbatim>\<open>sample(frac=1)\<close> returns the rows permuted.
\<close>

theorem class_balance:
  assumes choice_len: "\<And>a n p g. length (fst (choice a n p g)) = n"
    and sample_perm: "\<And>d g. mset (fst (sample d g)) = mset d"
    and nonneg: "0 \<le> n"
  shows "\<exists>corpus g'. generate_synthetic_data choice sample n g = Inr (corpus, g')
     \<and> int (length corpus) = n
     \<and> int (length (filter (\<lambda>r. label r = 1) corpus)) = n div 2
     \<and> int (length (filter (\<lambda>r. label r = 0) corpus)) = n - n div 2
     \<and> (n - n div 2) - n div 2 \<in> {0, 1}
     \<and> int (count_rows 1 0 corpus) = n div 2 div 3
     \<and> int (count_rows 1 1 corpus) = n div 2 div 3
     \<and> int (count_rows 1 2 corpus) = n div 2 div 3 + n div 2 mod 3
     \<and> n div 2 mod 3 \<in> {0, 1, 2}
     \<and> int (count_rows 0 (-1) corpus) = n - n div 2"
proof -
  from generate_labels [of choice sample n g, OF choice_len sample_perm nonneg]
  obtain corpus g' where gen: "generate_synthetic_data choice sample n g = Inr (corpus, g')"
    and m: "mset (labels_of corpus) =
         mset (replicate (nat (n div 2 div 3)) (1, 0)
              @ replicate (nat (n div 2 div 3)) (1, 1)
              @ replicate (nat (n div 2 - n div 2 div 3 - n div 2 div 3)) (1, 2)
              @ replicate (nat (n - n div 2)) (0, -1))"
    by blast
  note sz = split_sizes [OF nonneg]
  let ?s = "n div 2 div 3"
  let ?h = "n div 2 - n div 2 div 3 - n div 2 div 3"
  let ?b = "n - n div 2"
  have len: "int (length corpus) = n"
  proof -
    have "length corpus = nat ?s + nat ?s + nat ?h + nat ?b"
      unfolding length_labels_of m by simp
    then have "int (length corpus) = ?s + ?s + ?h + ?b"
      by (simp only: of_nat_add nat_0_le [OF sz(1)] nat_0_le [OF sz(2)] nat_0_le [OF sz(3)])
    then show ?thesis by linarith
  qed
  have mal: "int (length (filter (\<lambda>r. label r = 1) corpus)) = n div 2"
  proof -
    have "length (filter (\<lambda>r. label r = 1) corpus) = nat ?s + nat ?s + nat ?h"
      unfolding label_filter_count m by simp
    then have "int (length (filter (\<lambda>r. label r = 1) corpus)) = ?s + ?s + ?h"
      by (simp only: of_nat_add nat_0_le [OF sz(1)] nat_0_le [OF sz(2)])
    then show ?thesis by linarith
  qed
  have ben: "int (length (filter (\<lambda>r. label r = 0) corpus)) = n - n div 2"
  proof -
    have "length (filter (\<lambda>r. label r = 0) corpus) = nat ?b"
      unfolding label_filter_count m by simp
    then show ?thesis by (simp only: nat_0_le [OF sz(3)])
  qed
  have c0: "int (count_rows 1 0 corpus) = n div 2 div 3"
  proof -
    have "count_rows 1 0 corpus = nat ?s"
      unfolding count_rows_count m by simp
    then show ?thesis by (simp only: nat_0_le [OF sz(1)])
  qed
  have c1: "int (count_rows 1 1 corpus) = n div 2 div 3"
  proof -
    have "count_rows 1 1 corpus = nat ?s"
      unfolding count_rows_count m by simp
    then show ?thesis by (simp only: nat_0_le [OF sz(1)])
  qed
  have c2: "int (count_rows 1 2 corpus) = n div 2 div 3 + n div 2 mod 3"
  proof -
    have "count_rows 1 2 corpus = nat ?h"
      unfolding count_rows_count m by simp
    then have "int (count_rows 1 2 corpus) = ?h"
      by (simp only: nat_0_le [OF sz(2)])
    then show ?thesis by (simp only: sz(4))
  qed
  have c3: "int (count_rows 0 (-1) corpus) = n - n div 2"
  proof -
    have "count_rows 0 (-1) corpus = nat ?b"
      unfolding count_rows_count m by simp
    then show ?thesis by (simp only: nat_0_le [OF sz(3)])
  qed
  have tol: "(n - n div 2) - n div 2 \<in> {0, 1}" "n div 2 mod 3 \<in> {0, 1, 2}"
    by (simp; presburger)+
  show ?thesis
    apply (rule exI [of _ corpus])
    apply (rule exI [of _ g'])
    apply (intro conjI)
    by (fact gen len mal ben tol c0 c1 c2 c3)+
qed

theorem class_balance_witness:
  "(\<forall>a n p g. length (fst (cycle_choice a n p g)) = n)
   \<and> (\<forall>d g. mset (fst (rotate_sample d g)) = mset d)
   \<and> (0::int) \<le> 1000
   \<and> (\<exists>corpus g'. generate_synthetic_data cycle_choice rotate_sample 1000 0 = Inr (corpus, g')
        \<and> length corpus = 1000
        \<and> length (filter (\<lambda>r. label r = 1) corpus) = 500
        \<and> length (filter (\<lambda>r. label r = 0) corpus) = 500
        \<and> count_rows 1 0 corpus = 166
        \<and> count_rows 1 1 corpus = 166
        \<and> count_rows 1 2 corpus = 168
        \<and> count_rows 0 (-1) corpus = 500)"
  using class_balance [of cycle_choice rotate_sample 1000 0,
      OF cycle_choice_length rotate_sample_perm]
  by (simp add: cycle_choice_length rotate_sample_perm)

text \<open>
  Claim C3, as stated, fails. The generator takes a row count and nothing else: it has no
  seed argument and never seeds the random generator, so a run draws from whatever state
  the process-wide generator is in. Two runs at the same row count, the second following
  the first, give different corpora.
\<close>

theorem unseeded_runs_differ_counterexample:
  "generate_synthetic_data cycle_choice rotate_sample 2 0 = Inr (corpus_a, 29)
   \<and> generate_synthetic_data cycle_choice rotate_sample 2 29 = Inr (corpus_b, 58)
   \<and> corpus_a \<noteq> corpus_b
   \<and> map URL_Length corpus_a = [0, 1]
   \<and> map URL_Length corpus_b = [-1, 1]
   \<and> map label corpus_a = [1, 0]
   \<and> map label corpus_b = [0, 1]"
  by code_simp

text \<open>
  Claim C3, amended. What the row count alone fixes, for every state of the random
  generator, is the number of rows and how many rows carry each pair of \<^verbatim>\<open>label\<close> and
  \<^verbatim>\<open>threat_actor\<close>; feature values and row order depend on the generator state.
\<close>

theorem labels_reproducible:
  assumes choice_len: "\<And>a n p g. length (fst (choice a n p g)) = n"
    and sample_perm: "\<And>d g. mset (fst (sample d g)) = mset d"
    and nonneg: "0 \<le> n"
  shows "\<exists>c1 g1 c2 g2.
       generate_synthetic_data choice sample n g = Inr (c1, g1)
     \<and> generate_synthetic_data choice sample n g' = Inr (c2, g2)
     \<and> length c1 = length c2
     \<and> mset (labels_of c1) = mset (labels_of c2)"
proof -
  from generate_labels [of choice sample n g, OF choice_len sample_perm nonneg]
  obtain c1 g1 where 1: "generate_synthetic_data choice sample n g = Inr (c1, g1)"
    and m1: "mset (labels_of c1) =
         mset (replicate (nat (n div 2 div 3)) (1, 0)
              @ replicate (nat (n div 2 div 3)) (1, 1)
              @ replicate (nat (n div 2 - n div 2 div 3 - n div 2 div 3)) (1, 2)
              @ replicate (nat (n - n div 2)) (0, -1))"
    by blast
  from generate_labels [of choice sample n g', OF choice_len sample_perm nonneg]
  obtain c2 g2 where 2: "generate_synthetic_data choice sample n g' = Inr (c2, g2)"
    and m2: "mset (labels_of c2) =
         mset (replicate (nat (n div 2 div 3)) (1, 0)
              @ replicate (nat (n div 2 div 3)) (1, 1)
              @ replicate (nat (n div 2 - n div 2 div 3 - n div 2 div 3)) (1, 2)
              @ replicate (nat (n - n div 2)) (0, -1))"
    by blast
  have eq: "mset (labels_of c1) = mset (labels_of c2)"
    by (simp only: m1 m2)
  then have "length (labels_of c1) = length (labels_of c2)"
    by (rule mset_eq_length)
  then have "length c1 = length c2" by (simp add: labels_of_def)
  with 1 2 eq show ?thesis by blast
qed

theorem labels_reproducible_witness:
  "(\<forall>a n p g. length (fst (cycle_choice a n p g)) = n)
   \<and> (\<forall>d g. mset (fst (rotate_sample d g)) = mset d)
   \<and> (0::int) \<le> 2
   \<and> (\<exists>c1 g1 c2 g2.
       generate_synthetic_data cycle_choice rotate_sample 2 0 = Inr (c1, g1)
     \<and> generate_synthetic_data cycle_choice rotate_sample 2 29 = Inr (c2, g2)
     \<and> length c1 = length c2
     \<and> mset (labels_of c1) = mset (labels_of c2))"
  using labels_reproducible [of cycle_choice rotate_sample 2 0 29,
      OF cycle_choice_length rotate_sample_perm]
  by (simp add: cycle_choice_length rotate_sample_perm)

section \<open>The clustering model\<close>

text \<open>
  Claim C2, as stated, fails: \<^verbatim>\<open>train_clustering_model\<close> drops two columns and no row. On
  a corpus of one malicious and one benign row the fit receives both rows, the benign
  one included.
\<close>

theorem benign_rows_fitted_counterexample:
  "length (clustering_data corpus_a) = 2
   \<and> length (spec_malicious_clustering_data corpus_a) = 1
   \<and> label (corpus_a ! 1) = 0
   \<and> feature_vector.truncate (corpus_a ! 1) \<in> set (clustering_data corpus_a)
   \<and> feature_vector.truncate (corpus_a ! 1) \<notin> set (spec_malicious_clustering_data corpus_a)
   \<and> clustering_data corpus_a \<noteq> spec_malicious_clustering_data corpus_a"
  by (simp add: clustering_data_def spec_malicious_clustering_data_def corpus_a_def
      feature_vector.truncate_def)

text \<open>
  Claim C2, amended. The clustering is fitted on the feature columns of every row of the
  corpus, malicious and benign alike: one fitted vector per row, holding the row's 14
  feature columns, with \<^verbatim>\<open>label\<close> and \<^verbatim>\<open>threat_actor\<close> left out.
\<close>

theorem clustering_fit_uses_all_rows:
  "train_clustering_model kmeans data = kmeans (clustering_data data)
   \<and> length (clustering_data data) = length data
   \<and> (i < length data \<longrightarrow>
        clustering_data data ! i =
          \<lparr> having_IP_Address = having_IP_Address (data ! i),
            URL_Length = URL_Length (data ! i),
            Shortining_Service = Shortining_Service (data ! i),
            having_At_Symbol = having_At_Symbol (data ! i),
            double_slash_redirecting = double_slash_redirecting (data ! i),
            Prefix_Suffix = Prefix_Suffix (data ! i),
            having_Sub_Domain = having_Sub_Domain (data ! i),
            SSLfinal_State = SSLfinal_State (data ! i),
            URL_of_Anchor = URL_of_Anchor (data ! i),
            Links_in_tags = Links_in_tags (data ! i),
            SFH = SFH (data ! i),
            Abnormal_URL = Abnormal_URL (data ! i),
            has_political_keyword = has_political_keyword (data ! i),
            sophistication_level = sophistication_level (data ! i) \<rparr>)"
  by (simp add: train_clustering_model_def clustering_data_def feature_vector.truncate_def)

theorem clustering_fit_uses_all_rows_witness:
  "(1::nat) < length corpus_a
   \<and> label (corpus_a ! 1) = 0
   \<and> length (clustering_data corpus_a) = 2
   \<and> SSLfinal_State (clustering_data corpus_a ! 1) = -1"
  using clustering_fit_uses_all_rows [of kmeans_a corpus_a 1]
  by (simp add: corpus_a_def)

text \<open>
  Claim C1, as stated, fails: training returns the fitted model alone and computes no
  binding; attribution looks the cluster id up in a table written in the source. With the
  first fitted model cluster 0 holds the row of archetype 2, with the second the row of
  archetype 1; both are resolved to the same profile.
\<close>

theorem binding_not_majority_counterexample:
  "spec_cluster_binding (train_clustering_model kmeans_a corpus_three) corpus_three 0 = Some 2
   \<and> spec_cluster_binding (train_clustering_model kmeans_b corpus_three) corpus_three 0 = Some 1
   \<and> train_clustering_model kmeans_a corpus_three (input_dict activist_form) = IntVal 0
   \<and> name (attribution kmeans_a corpus_three (input_dict activist_form)) = ''Organized Cybercrime''
   \<and> attribution kmeans_b corpus_three (input_dict risky_form)
       = attribution kmeans_a corpus_three (input_dict activist_form)"
  by code_simp

text \<open>
  Claim C1, amended. The binding is the table \<^verbatim>\<open>THREAT_ACTOR_PROFILES\<close> of the source,
  with an entry for each of the cluster ids 0, 1 and 2. It is fixed in advance: the profile
  attributed to a vector depends on the cluster id the fitted model predicts and on
  nothing else, whatever the corpus and the fit.
\<close>

theorem binding_is_fixed_table:
  "(train_clustering_model kmeans data v = train_clustering_model kmeans' data' v' \<longrightarrow>
      attribution kmeans data v = attribution kmeans' data' v')
   \<and> (train_clustering_model kmeans data v \<in> {IntVal 0, IntVal 1, IntVal 2} \<longrightarrow>
        THREAT_ACTOR_PROFILES (train_clustering_model kmeans data v)
          = Some (attribution kmeans data v))
   \<and> dom THREAT_ACTOR_PROFILES = {IntVal 0, IntVal 1, IntVal 2}"
proof (intro conjI impI)
  assume "train_clustering_model kmeans data v = train_clustering_model kmeans' data' v'"
  then show "attribution kmeans data v = attribution kmeans' data' v'"
    by (simp add: attribution_def)
next
  assume "train_clustering_model kmeans data v \<in> {IntVal 0, IntVal 1, IntVal 2}"
  then have "train_clustering_model kmeans data v \<in> dom THREAT_ACTOR_PROFILES"
    by (simp only: dom_profiles)
  then show "THREAT_ACTOR_PROFILES (train_clustering_model kmeans data v)
      = Some (attribution kmeans data v)"
    by (auto simp: attribution_def threat_profile_of_def)
next
  show "dom THREAT_ACTOR_PROFILES = {IntVal 0, IntVal 1, IntVal 2}"
    by (rule dom_profiles)
qed

theorem binding_is_fixed_table_witness:
  "train_clustering_model kmeans_a corpus_three (input_dict activist_form)
     = train_clustering_model kmeans_b corpus_a (input_dict risky_form)
   \<and> train_clustering_model kmeans_a corpus_three (input_dict activist_form) = IntVal 0
   \<and> attribution kmeans_a corpus_three (input_dict activist_form)
     = attribution kmeans_b corpus_a (input_dict risky_form)
   \<and> name (attribution kmeans_a corpus_three (input_dict activist_form)) = ''Organized Cybercrime''"
  using binding_is_fixed_table [of kmeans_a corpus_three "input_dict activist_form"
      kmeans_b corpus_a "input_dict risky_form"]
  by (simp add: attribution_def threat_profile_of_def THREAT_ACTOR_PROFILES_def
      train_clustering_model_def kmeans_a_def kmeans_b_def input_dict_def
      activist_form_def risky_form_def)

end
